theory Spec2Isabelle
  imports Main
begin

section \<open>The configure command of kraft (src/kraft/cmd/configure.py)\<close>

text \<open>
  The file holds two functions. \<^verbatim>\<open>cmd_configure\<close> turns the repeated
  \<^verbatim>\<open>--yes\<close>, \<^verbatim>\<open>--no\<close> and \<^verbatim>\<open>--set\<close> tokens into one list of option
  strings, calls \<^verbatim>\<open>kraft_configure\<close>, and on a \<^verbatim>\<open>MissingComponent\<close>
  exception pulls the component and forwards to itself with force mode on.
  \<^verbatim>\<open>kraft_configure\<close> loads the application, opens the menu editor or picks
  a target, and hands target and options to the application's configure step.

  Exceptions are values of the type \<open>error\<close>; \<^verbatim>\<open>sys.exit\<close> is an outcome of its
  own, since \<^verbatim>\<open>SystemExit\<close> is not caught by \<^verbatim>\<open>except Exception\<close>. Every call
  that leaves the file (the application object, the prompts, the logger, the pull
  workflow) is answered by a scenario record and written to a trace of events.
\<close>

subsection \<open>Exceptions, events and outcomes\<close>

datatype error =
    MissingComponent string
  | KraftError string
  | CannotConfigureApplication string
  | ValueError string
  | TypeError string
  | OtherException string

text \<open>
  Modelled from the spec: the target class of the application model is missing from
  the sources. The file reads \<^verbatim>\<open>t.name\<close> (compared with \<^verbatim>\<open>None\<close>),
  \<^verbatim>\<open>t.architecture.name\<close>, \<^verbatim>\<open>t.platform.name\<close> and \<^verbatim>\<open>t.binary\<close> (a
  path); the spec gives a target an optional name and a mandatory architecture and
  platform. The elements of \<^verbatim>\<open>app.binaries\<close> are assigned to \<^verbatim>\<open>target\<close> like
  the declared targets, so both lists hold the same record.
\<close>

record target =
  name :: "string option"
  architecture :: string
  platform :: string
  binary :: string

text \<open>
  The value of the variable \<^verbatim>\<open>target\<close> of \<^verbatim>\<open>kraft_configure\<close>: \<^verbatim>\<open>None\<close>,
  the name given on the command line, or an object taken from the application.
\<close>

datatype tval = TNone | TName string | TObj target

text \<open>What the file reads from the loaded application object.\<close>

record application =
  is_configured :: bool
  targets :: "target list"
  binaries :: "target list"

datatype event =
    Preflight
  | Debug string
  | Warn error
  | Critical string
  | CriticalError error
  | Traceback
  | FromWorkdir string bool "string list"
  | OpenMenuconfig
  | Confirm string
  | Prompt "string list"
  | Configure tval "string list" bool
  | SaveYaml
  | Pull string

datatype outcome = Return | SysExit nat | Raise error

text \<open>
  The answers of the world to one run of \<^verbatim>\<open>cmd_configure\<close>: an exception
  (\<open>Some e\<close>, \<open>Inl e\<close>) or a value. \<^verbatim>\<open>inquirer.prompt\<close> returns
  \<^verbatim>\<open>None\<close> or a dictionary with the chosen label under \<^verbatim>\<open>'target'\<close>.
\<close>

record scenario =
  preflight :: "error option"
  getcwd :: string
  path_exists :: "string \<Rightarrow> bool"
  from_workdir :: "string \<Rightarrow> bool \<Rightarrow> string list \<Rightarrow> error + application"
  isatty :: bool
  open_menuconfig :: "error option"
  confirm :: "string \<Rightarrow> error + bool"
  prompt :: "string list \<Rightarrow> error + string option"
  configure :: "tval \<Rightarrow> string list \<Rightarrow> bool \<Rightarrow> error option"
  save_yaml :: "error option"
  kraft_list_pull :: "string \<Rightarrow> error option"
  verbose :: bool

text \<open>The parameters click passes to \<^verbatim>\<open>cmd_configure\<close> (\<^verbatim>\<open>ctx.params\<close>).\<close>

record params =
  target :: "string option"
  plat :: "string option"
  arch :: "string option"
  force_configure :: bool
  show_menuconfig :: bool
  workdir :: "string option"
  yes :: "string list"
  no :: "string list"
  opts :: "string list"
  use_versions :: "string list"

subsection \<open>Python string operations used by the file\<close>

text \<open>\<^verbatim>\<open>s.startswith(p)\<close>.\<close>

definition startswith :: "string \<Rightarrow> string \<Rightarrow> bool" where
  "startswith s p = (take (length p) s = p)"

text \<open>
  \<^verbatim>\<open>fmt % args\<close> for string arguments, with the conversions \<^verbatim>\<open>%s\<close> and
  \<^verbatim>\<open>%%\<close>. A conversion without an argument left and an argument without a
  conversion left raise \<^verbatim>\<open>TypeError\<close>, a lone \<^verbatim>\<open>%\<close> at the end raises
  \<^verbatim>\<open>ValueError\<close>. Any other conversion character is outside this model and is
  reported as \<^verbatim>\<open>ValueError\<close> too. An inserted argument is not scanned again.
\<close>

fun pyformat :: "string \<Rightarrow> string list \<Rightarrow> error + string" where
  "pyformat [] [] = Inr []"
| "pyformat [] (a # as) =
     Inl (TypeError ''not all arguments converted during string formatting'')"
| "pyformat (c # cs) as =
     (if c \<noteq> CHR ''%'' then
        (case pyformat cs as of Inl e \<Rightarrow> Inl e | Inr r \<Rightarrow> Inr (c # r))
      else
        (case cs of
           [] \<Rightarrow> Inl (ValueError ''incomplete format'')
         | d # ds \<Rightarrow>
             if d = CHR ''%'' then
               (case pyformat ds as of Inl e \<Rightarrow> Inl e | Inr r \<Rightarrow> Inr (CHR ''%'' # r))
             else if d = CHR ''s'' then
               (case as of
                  [] \<Rightarrow> Inl (TypeError ''not enough arguments for format string'')
                | a # as' \<Rightarrow>
                    (case pyformat ds as' of Inl e \<Rightarrow> Inl e | Inr r \<Rightarrow> Inr (a @ r)))
             else Inl (ValueError ''unsupported format character'')))"

text \<open>\<^verbatim>\<open>os.path.basename\<close> of posixpath: what follows the last slash.\<close>

definition basename :: "string \<Rightarrow> string" where
  "basename p = rev (takeWhile (\<lambda>c. c \<noteq> CHR ''/'') (rev p))"

subsection \<open>The constants of kraft.const\<close>

text \<open>
  The four constants imported from \<^verbatim>\<open>kraft.const\<close>. \<^verbatim>\<open>KCONFIG\<close> is applied
  to one argument and \<^verbatim>\<open>KCONFIG_EQ\<close> to a pair with the \<^verbatim>\<open>%\<close> operator, so
  both are format strings. The functions below take the record as a parameter.
\<close>

record kconst =
  KCONFIG :: string
  KCONFIG_EQ :: string
  KCONFIG_Y :: string
  KCONFIG_N :: string

text \<open>
  Modelled from the spec: \<^verbatim>\<open>kraft/const.py\<close> is missing from the sources. The
  spec serialises an assignment as \<^verbatim>\<open>KEY=VALUE\<close>, enables with the value
  \<^verbatim>\<open>y\<close>, disables with \<^verbatim>\<open>n\<close>, and adds a key namespace prefix to a token
  (its example uses \<^verbatim>\<open>KEY_\<close>). The prefix is the parameter \<open>p\<close>.
\<close>

definition kraft_const :: "string \<Rightarrow> kconst" where
  "kraft_const p =
     \<lparr>KCONFIG = p @ ''%s'', KCONFIG_EQ = ''%s=%s'', KCONFIG_Y = ''y'', KCONFIG_N = ''n''\<rparr>"

subsection \<open>Building the option list (lines 127 to 145)\<close>

text \<open>
  \<^verbatim>\<open>if not y.startswith(KCONFIG): y = KCONFIG % y\<close>, the same in all three
  loops. The token is compared with the format string itself.
\<close>

definition prefixed :: "kconst \<Rightarrow> string \<Rightarrow> error + string" where
  "prefixed c tok =
     (if \<not> startswith tok (KCONFIG c) then pyformat (KCONFIG c) [tok] else Inr tok)"

text \<open>
  Each loop takes the list \<^verbatim>\<open>options\<close> built so far. A loop stops with the
  events logged and the outcome (\<^verbatim>\<open>sys.exit(1)\<close>, or the exception of a failed
  \<^verbatim>\<open>%\<close>, which nothing catches here).
\<close>

fun yes_loop :: "kconst \<Rightarrow> string list \<Rightarrow> string list \<Rightarrow> (event list \<times> outcome) + string list" where
  "yes_loop c [] options = Inr options"
| "yes_loop c (y # ys) options =
     (case prefixed c y of
        Inl e \<Rightarrow> Inl ([], Raise e)
      | Inr y' \<Rightarrow>
          (case pyformat (KCONFIG_EQ c) [y', KCONFIG_Y c] of
             Inl e \<Rightarrow> Inl ([], Raise e)
           | Inr a \<Rightarrow> yes_loop c ys (options @ [a])))"

fun no_loop :: "kconst \<Rightarrow> string list \<Rightarrow> string list \<Rightarrow> (event list \<times> outcome) + string list" where
  "no_loop c [] options = Inr options"
| "no_loop c (n # ns) options =
     (case prefixed c n of
        Inl e \<Rightarrow> Inl ([], Raise e)
      | Inr n' \<Rightarrow>
          if n' \<in> set options then
            Inl ([Critical (''Cannot specify same option with multiple values: '' @ n')],
                 SysExit 1)
          else
            (case pyformat (KCONFIG_EQ c) [n', KCONFIG_N c] of
               Inl e \<Rightarrow> Inl ([], Raise e)
             | Inr a \<Rightarrow> no_loop c ns (options @ [a])))"

fun set_loop :: "kconst \<Rightarrow> string list \<Rightarrow> string list \<Rightarrow> (event list \<times> outcome) + string list" where
  "set_loop c [] options = Inr options"
| "set_loop c (o1 # os) options =
     (case prefixed c o1 of
        Inl e \<Rightarrow> Inl ([], Raise e)
      | Inr o' \<Rightarrow>
          if CHR ''='' \<notin> set o' then
            Inl ([Critical (''Missing value for --set option: '' @ o')], SysExit 1)
          else set_loop c os (options @ [o']))"

definition build_options ::
  "kconst \<Rightarrow> string list \<Rightarrow> string list \<Rightarrow> string list \<Rightarrow> (event list \<times> outcome) + string list" where
  "build_options c ys ns os =
     (case yes_loop c ys [] of
        Inl f \<Rightarrow> Inl f
      | Inr options1 \<Rightarrow>
          (case no_loop c ns options1 of
             Inl f \<Rightarrow> Inl f
           | Inr options2 \<Rightarrow> set_loop c os options2))"

subsection \<open>Choosing the target (lines 230 to 273)\<close>

text \<open>
  The loop of lines 237 to 247 over the declared targets. When it runs out, the variable
  \<^verbatim>\<open>target\<close> still holds what the caller passed.
\<close>

fun scan :: "string option \<Rightarrow> string option \<Rightarrow> string option \<Rightarrow> target list \<Rightarrow> tval" where
  "scan tgt ar pl [] = (case tgt of None \<Rightarrow> TNone | Some nm \<Rightarrow> TName nm)"
| "scan tgt ar pl (t # ts) =
     (if tgt \<noteq> None \<and> tgt = name t then TObj t
      else if ar = Some (architecture t) \<and> pl = Some (platform t) then TObj t
      else scan tgt ar pl ts)"

text \<open>Lines 230 to 247.\<close>

definition resolve :: "string option \<Rightarrow> string option \<Rightarrow> string option \<Rightarrow> application \<Rightarrow> tval" where
  "resolve tgt ar pl app =
     (if length (targets app) = 1 then TObj (targets app ! 0)
      else if length (binaries app) = 1 then TObj (binaries app ! 0)
      else scan tgt ar pl (targets app))"

text \<open>The label of a binary in the prompt (lines 254 to 256).\<close>

definition label :: "target \<Rightarrow> string" where
  "label t =
     (case name t of
        None \<Rightarrow> basename (binary t)
      | Some nm \<Rightarrow> basename (binary t) @ '' ('' @ nm @ '')'')"

text \<open>
  The loop of lines 270 to 273; \<^verbatim>\<open>target\<close> is \<^verbatim>\<open>None\<close> when it starts. The
  first argument is what the prompt returned. It is subscripted in the test of the
  loop, once for each binary visited: the answer \<^verbatim>\<open>None\<close> raises
  \<^verbatim>\<open>TypeError\<close> at the first binary, and raises nothing when the application has
  no binary.
\<close>

fun work_backwards :: "string option \<Rightarrow> target list \<Rightarrow> error + tval" where
  "work_backwards answers [] = Inr TNone"
| "work_backwards answers (t # ts) =
     (case answers of
        None \<Rightarrow>
          Inl (TypeError
                 (CHR 0x27 # ''NoneType'' @ CHR 0x27 # '' object is not subscriptable''))
      | Some answer \<Rightarrow>
          if answer = basename (binary t) then Inr (TObj t)
          else work_backwards answers ts)"

text \<open>Lines 250 to 273: the labels, the prompt and the loop over the binaries.\<close>

definition select_target :: "scenario \<Rightarrow> application \<Rightarrow> tval \<Rightarrow> event list \<times> (error + tval)" where
  "select_target s app tv =
     (if tv \<noteq> TNone then ([], Inr tv)
      else
        (case prompt s (map label (binaries app)) of
           Inl e \<Rightarrow> ([Prompt (map label (binaries app))], Inl e)
         | Inr answers \<Rightarrow>
             ([Prompt (map label (binaries app))],
              work_backwards answers (binaries app))))"

subsection \<open>The function kraft-configure (lines 198 to 281)\<close>

text \<open>Lines 275 to 281: the configure step and the write of the YAML file.\<close>

definition apply_and_save :: "scenario \<Rightarrow> tval \<Rightarrow> string list \<Rightarrow> bool \<Rightarrow> event list \<times> error option" where
  "apply_and_save s tv options force =
     (case configure s tv options force of
        Some e \<Rightarrow> ([Configure tv options force], Some e)
      | None \<Rightarrow> ([Configure tv options force, SaveYaml], save_yaml s))"

text \<open>Lines 230 to 281, with the force flag as lines 224 to 228 leave it.\<close>

definition resolve_and_apply ::
  "scenario \<Rightarrow> application \<Rightarrow> params \<Rightarrow> string list \<Rightarrow> bool \<Rightarrow> event list \<times> error option" where
  "resolve_and_apply s app a options force =
     (case select_target s app (resolve (target a) (arch a) (plat a) app) of
        (evs, Inl e) \<Rightarrow> (evs, Some e)
      | (evs, Inr tv) \<Rightarrow>
          (case apply_and_save s tv options force of
             (evs', r) \<Rightarrow> (evs @ evs', r)))"

text \<open>The question of line 225.\<close>

definition overwrite_question :: "string \<Rightarrow> string" where
  "overwrite_question wd =
     wd @ '' is already configured, would you like to overwrite configuration?''"

text \<open>
  Lines 217 to 281, once the application is loaded: the menu editor, or the check of an
  existing configuration followed by target and configure step.
\<close>

definition configure_loaded ::
  "scenario \<Rightarrow> string \<Rightarrow> application \<Rightarrow> params \<Rightarrow> string list \<Rightarrow> event list \<times> error option" where
  "configure_loaded s wd app a options =
     (if show_menuconfig a then
        (if isatty s then ([OpenMenuconfig], open_menuconfig s)
         else ([], Some (KraftError ''Cannot open menuconfig in non-TTY environment'')))
      else if is_configured app \<and> \<not> force_configure a then
        (case confirm s (overwrite_question wd) of
           Inl e \<Rightarrow> ([Confirm (overwrite_question wd)], Some e)
         | Inr True \<Rightarrow>
             (case resolve_and_apply s app a options True of
                (evs, r) \<Rightarrow> (Confirm (overwrite_question wd) # evs, r))
         | Inr False \<Rightarrow>
             ([Confirm (overwrite_question wd)], Some (CannotConfigureApplication wd)))
      else resolve_and_apply s app a options (force_configure a))"

text \<open>
  The function returns the events it caused and the exception it raised, if any. The
  working directory and the option list are arguments of their own, as
  \<^verbatim>\<open>cmd_configure\<close> computes them; the other arguments are read from the
  parameters of the command, which \<^verbatim>\<open>cmd_configure\<close> passes on unchanged.
\<close>

definition kraft_configure ::
  "scenario \<Rightarrow> string option \<Rightarrow> params \<Rightarrow> string list \<Rightarrow> event list \<times> error option" where
  "kraft_configure s wdir a options =
     (case wdir of
        None \<Rightarrow> ([], Some (ValueError ''working directory is empty: None''))
      | Some wd \<Rightarrow>
          if \<not> path_exists s wd then
            ([], Some (ValueError (''working directory is empty: '' @ wd)))
          else
            (case from_workdir s wd (force_configure a) (use_versions a) of
               Inl e \<Rightarrow>
                 ([Debug (''Configuring '' @ wd @ ''...''),
                   FromWorkdir wd (force_configure a) (use_versions a)], Some e)
             | Inr app \<Rightarrow>
                 (case configure_loaded s wd app a options of
                    (evs, r) \<Rightarrow>
                      (Debug (''Configuring '' @ wd @ ''...'')
                       # FromWorkdir wd (force_configure a) (use_versions a) # evs, r))))"

subsection \<open>The command cmd-configure (lines 110 to 195)\<close>

text \<open>
  The handler of \<^verbatim>\<open>MissingComponent\<close> (lines 160 to 186) up to the forward: the
  events, and either the outcome that ends the command or \<open>None\<close> when line 180 is
  reached. An exception of \<^verbatim>\<open>click.confirm\<close> is raised inside the handler, where
  the clause \<^verbatim>\<open>except Exception\<close> of the same statement does not catch it.
  When the operator declines and verbose is off, neither branch runs and the command
  returns.
\<close>

definition pull_question :: "string \<Rightarrow> string" where
  "pull_question component = ''Would you like to pull '' @ component @ ''?''"

definition on_missing :: "scenario \<Rightarrow> bool \<Rightarrow> string \<Rightarrow> event list \<times> outcome option" where
  "on_missing s force component =
     (case (if force then ([], Inr True)
            else (case confirm s (pull_question component) of
                    Inl e \<Rightarrow>
                      ([Warn (MissingComponent component), Confirm (pull_question component)], Inl e)
                  | Inr b \<Rightarrow>
                      ([Warn (MissingComponent component), Confirm (pull_question component)], Inr b)))
      of
        (evs, Inl e) \<Rightarrow> (evs, Some (Raise e))
      | (evs, Inr True) \<Rightarrow>
          (case kraft_list_pull s component of
             Some e \<Rightarrow>
               (evs @ [Pull component] @ (if verbose s then [Traceback] else []),
                Some (SysExit 1))
           | None \<Rightarrow> (evs @ [Pull component], None))
      | (evs, Inr False) \<Rightarrow>
          if verbose s then (evs @ [Traceback], Some (SysExit 1))
          else (evs, Some Return))"

text \<open>
  The command. The world is a sequence of scenarios, one for each entry of the
  command: \<open>w i\<close> answers the calls of entry number \<open>i\<close>.
  \<^verbatim>\<open>ctx.forward(cmd_configure, force_configure=True)\<close> enters the command again
  with the parameters of the context and the force flag set, so the function calls
  itself at \<open>Suc i\<close>; what follows the forward is the end of the handler. The
  result is \<open>None\<close> when the command never ends. The recursion limit of the
  interpreter is not modelled.
\<close>

partial_function (option) cmd_configure ::
  "kconst \<Rightarrow> (nat \<Rightarrow> scenario) \<Rightarrow> nat \<Rightarrow> params \<Rightarrow> (event list \<times> outcome) option" where
  "cmd_configure c w i a =
     (case preflight (w i) of
        Some e \<Rightarrow> Some ([Preflight], Raise e)
      | None \<Rightarrow>
          (case build_options c (yes a) (no a) (opts a) of
             Inl (evs, out) \<Rightarrow> Some (Preflight # evs, out)
           | Inr options \<Rightarrow>
               (case kraft_configure (w i)
                       (Some (case workdir a of None \<Rightarrow> getcwd (w i) | Some d \<Rightarrow> d))
                       a options of
                  (evs, None) \<Rightarrow> Some (Preflight # evs, Return)
                | (evs, Some (MissingComponent component)) \<Rightarrow>
                    (case on_missing (w i) (force_configure a) component of
                       (evs', Some out) \<Rightarrow> Some (Preflight # evs @ evs', out)
                     | (evs', None) \<Rightarrow>
                         Option.bind
                           (cmd_configure c w (Suc i) (a\<lparr>force_configure := True\<rparr>))
                           (\<lambda>(evs'', out). Some (Preflight # evs @ evs' @ evs'', out)))
                | (evs, Some e) \<Rightarrow>
                    Some (Preflight # evs @ [CriticalError e]
                            @ (if verbose (w i) then [Traceback] else []),
                          SysExit 1))))"

subsection \<open>The scan as the spec words it\<close>

text \<open>
  Step 3 of the spec's resolver, in the spec's words: a target qualifies when an explicit
  name was supplied and equals the target's name, or when both an explicit architecture
  and an explicit platform were supplied and both equal the target's; the first
  qualifying target in declared order is selected. It is compared with \<open>scan\<close>
  below.
\<close>

definition spec_qualifies :: "string option \<Rightarrow> string option \<Rightarrow> string option \<Rightarrow> target \<Rightarrow> bool" where
  "spec_qualifies tgt ar pl t =
     ((case tgt of None \<Rightarrow> False | Some nm \<Rightarrow> name t = Some nm)
      \<or> (case (ar, pl) of
            (Some x, Some y) \<Rightarrow> architecture t = x \<and> platform t = y
          | _ \<Rightarrow> False))"

definition spec_first_match :: "string option \<Rightarrow> string option \<Rightarrow> string option \<Rightarrow> target list \<Rightarrow> target option" where
  "spec_first_match tgt ar pl ts = find (spec_qualifies tgt ar pl) ts"

subsection \<open>Reading a trace\<close>

text \<open>The targets handed to the configure step, the components pulled, the entries of the command.\<close>

fun applied :: "event list \<Rightarrow> tval list" where
  "applied [] = []"
| "applied (Configure tv options force # es) = tv # applied es"
| "applied (e # es) = applied es"

fun pulled :: "event list \<Rightarrow> string list" where
  "pulled [] = []"
| "pulled (Pull component # es) = component # pulled es"
| "pulled (e # es) = pulled es"

fun entries :: "event list \<Rightarrow> nat" where
  "entries [] = 0"
| "entries (Preflight # es) = Suc (entries es)"
| "entries (e # es) = entries es"

subsection \<open>Example applications and worlds\<close>

definition t_a :: target where
  "t_a = \<lparr>name = Some ''a'', architecture = ''x86_64'', platform = ''kvm'',
          binary = ''build/a_kvm-x86_64''\<rparr>"

definition t_b :: target where
  "t_b = \<lparr>name = Some ''b'', architecture = ''arm64'', platform = ''xen'',
          binary = ''build/b_xen-arm64''\<rparr>"

definition u_kvm :: target where
  "u_kvm = \<lparr>name = None, architecture = ''x86_64'', platform = ''kvm'',
            binary = ''build/app_kvm-x86_64''\<rparr>"

definition u_xen :: target where
  "u_xen = \<lparr>name = None, architecture = ''arm64'', platform = ''xen'',
            binary = ''build/app_xen-arm64''\<rparr>"

definition app_of :: "target list \<Rightarrow> target list \<Rightarrow> application" where
  "app_of ts bs = \<lparr>is_configured = False, targets = ts, binaries = bs\<rparr>"

text \<open>
  A world without a terminal in which every call succeeds, every question is answered
  with yes and the prompt answers with the given label.
\<close>

definition calm :: "application \<Rightarrow> string \<Rightarrow> scenario" where
  "calm app answer =
     \<lparr>preflight = None, getcwd = ''/work'', path_exists = (\<lambda>d. True),
      from_workdir = (\<lambda>d f v. Inr app), isatty = False, open_menuconfig = None,
      confirm = (\<lambda>q. Inr True), prompt = (\<lambda>choices. Inr (Some answer)),
      configure = (\<lambda>tv options f. None), save_yaml = None,
      kraft_list_pull = (\<lambda>component. None), verbose = False\<rparr>"

text \<open>The same world with a configure step that misses a library.\<close>

definition lacking :: "application \<Rightarrow> scenario" where
  "lacking app =
     (calm app [])\<lparr>configure := (\<lambda>tv options f. Some (MissingComponent ''newlib''))\<rparr>"

text \<open>The library is missing at the first two entries of the command, then present.\<close>

definition missing_twice :: "nat \<Rightarrow> scenario" where
  "missing_twice i = (if i < 2 then lacking (app_of [t_a] []) else calm (app_of [t_a] []) [])"

definition plain :: params where
  "plain = \<lparr>target = None, plat = None, arch = None, force_configure = False,
            show_menuconfig = False, workdir = None, yes = [], no = [], opts = [],
            use_versions = []\<rparr>"

section \<open>Properties\<close>

subsection \<open>Formatting with the constants\<close>

lemma pyformat_plain:
  "CHR ''%'' \<notin> set p \<Longrightarrow>
   pyformat (p @ f) as = (case pyformat f as of Inl e \<Rightarrow> Inl e | Inr r \<Rightarrow> Inr (p @ r))"
  by (induction p) (auto split: sum.splits)

lemma startswith_percent:
  assumes "CHR ''%'' \<notin> set tok"
  shows "\<not> startswith tok (p @ ''%s'')"
proof
  assume "startswith tok (p @ ''%s'')"
  then have "take (length (p @ ''%s'')) tok = p @ ''%s''"
    by (simp add: startswith_def)
  then have "CHR ''%'' \<in> set (take (length (p @ ''%s'')) tok)"
    by simp
  then have "CHR ''%'' \<in> set tok"
    by (rule in_set_takeD)
  with assms show False by simp
qed

lemma prefixed_kraft_const:
  assumes "CHR ''%'' \<notin> set p" and "CHR ''%'' \<notin> set tok"
  shows "prefixed (kraft_const p) tok = Inr (p @ tok)"
  using assms startswith_percent [OF assms(2), of p]
  by (simp add: prefixed_def kraft_const_def pyformat_plain)

lemma assignment_kraft_const:
  "pyformat (KCONFIG_EQ (kraft_const p)) [k, v] = Inr (k @ ''='' @ v)"
  by (simp add: kraft_const_def)

lemma values_kraft_const:
  "KCONFIG_Y (kraft_const p) = ''y''" "KCONFIG_N (kraft_const p) = ''n''"
  by (simp_all add: kraft_const_def)

subsection \<open>The option list\<close>

text \<open>
  Claim C1 says that a key listed both as enable and as disable token makes the option
  list fail with a conflict. The test of line 135 looks the prefixed key up among the
  finished strings \<open>key=y\<close>, so the same key never meets itself: for every
  prefix \<open>p\<close> and key \<open>k\<close> free of the percent sign, enabling and disabling
  \<open>k\<close> yields both assignments and no error.
\<close>

theorem same_key_both_ways_accepted:
  assumes "CHR ''%'' \<notin> set p" and "CHR ''%'' \<notin> set k"
  shows "build_options (kraft_const p) [k] [k] [] = Inr [p @ k @ ''=y'', p @ k @ ''=n'']"
  using assms
  by (simp add: build_options_def prefixed_kraft_const assignment_kraft_const values_kraft_const)

theorem same_key_both_ways_accepted_witness:
  "CHR ''%'' \<notin> set ''KEY_'' \<and> CHR ''%'' \<notin> set ''a''
   \<and> build_options (kraft_const ''KEY_'') [''a''] [''a''] [] = Inr [''KEY_a=y'', ''KEY_a=n'']"
  using same_key_both_ways_accepted [of "''KEY_''" "''a''"] by simp

text \<open>
  Claim C7, as stated: enable \<open>a\<close>, disable \<open>b\<close>, set \<open>c=2\<close> gives the two
  prefixed assignments and \<open>c=2\<close> as it is. The third loop prefixes its token
  like the other two (lines 140 and 141), so the output differs.
\<close>

theorem example_set_token_not_as_is:
  "build_options (kraft_const ''KEY_'') [''a''] [''b''] [''c=2'']
     \<noteq> Inr [''KEY_a=y'', ''KEY_b=n'', ''c=2'']"
  by (simp add: build_options_def kraft_const_def prefixed_def startswith_def)

text \<open>
  Claim C7, amended: the output is exactly three assignments in this order, the
  prefixed key of \<open>a\<close> with value \<open>y\<close>, the prefixed key of \<open>b\<close> with value
  \<open>n\<close>, and the setting with the prefix added, for every prefix free of the percent
  sign.
\<close>

theorem example_all_tokens_prefixed:
  assumes "CHR ''%'' \<notin> set p"
  shows "build_options (kraft_const p) [''a''] [''b''] [''c=2'']
           = Inr [p @ ''a=y'', p @ ''b=n'', p @ ''c=2'']"
  using assms
  by (simp add: build_options_def prefixed_kraft_const assignment_kraft_const values_kraft_const)

theorem example_all_tokens_prefixed_witness:
  "CHR ''%'' \<notin> set ''KEY_''
   \<and> build_options (kraft_const ''KEY_'') [''a''] [''b''] [''c=2'']
       = Inr [''KEY_a=y'', ''KEY_b=n'', ''KEY_c=2'']"
  using example_all_tokens_prefixed [of "''KEY_''"] by simp

subsection \<open>The target\<close>

lemma scan_first_match:
  "scan tgt ar pl ts =
     (case spec_first_match tgt ar pl ts of
        Some t \<Rightarrow> TObj t
      | None \<Rightarrow> (case tgt of None \<Rightarrow> TNone | Some nm \<Rightarrow> TName nm))"
  by (induction ts) (auto simp: spec_first_match_def spec_qualifies_def split: option.splits)

lemma work_backwards_find:
  "work_backwards (Some answer) bs =
     Inr (case find (\<lambda>b. basename (binary b) = answer) bs of
            None \<Rightarrow> TNone
          | Some b \<Rightarrow> TObj b)"
  by (induction bs) auto

lemma work_backwards_no_answer:
  "work_backwards None bs =
     (if bs = [] then Inr TNone
      else Inl (TypeError
                  (CHR 0x27 # ''NoneType'' @ CHR 0x27 # '' object is not subscriptable'')))"
  by (cases bs) simp_all


text \<open>
  Claim C5: an application with exactly one declared target is configured for that
  target, whatever name, architecture and platform the caller gave: line 231 selects
  it, no prompt follows, and it is the target of the configure step.
\<close>

theorem single_target_selected:
  assumes "targets app = [t]"
  shows "resolve tgt ar pl app = TObj t
         \<and> resolve_and_apply s app a options force = apply_and_save s (TObj t) options force"
  using assms
  by (simp add: resolve_def resolve_and_apply_def select_target_def split: prod.splits)

theorem single_target_selected_witness:
  "targets (app_of [t_a] []) = [t_a]
   \<and> resolve (Some ''zzz'') (Some ''arm64'') (Some ''xen'') (app_of [t_a] []) = TObj t_a"
  using single_target_selected [of "app_of [t_a] []" t_a "Some ''zzz''" "Some ''arm64''" "Some ''xen''"]
  by (simp add: app_of_def)

text \<open>
  Claim C4: when the application does not have exactly one declared target (two or more
  in the claim) and has exactly one binary, line 234 selects the entry of that binary,
  no prompt follows, and the first event of lines 230 to 281 is the configure step
  called with that entry (followed by the save when the step succeeds): it is the one
  target handed to the configure step.
\<close>

theorem single_binary_selected:
  assumes "length (targets app) \<noteq> 1" and "binaries app = [b]"
  shows "resolve tgt ar pl app = TObj b
         \<and> resolve_and_apply s app a options force = apply_and_save s (TObj b) options force
         \<and> fst (resolve_and_apply s app a options force) =
             Configure (TObj b) options force
             # (case configure s (TObj b) options force of
                  None \<Rightarrow> [SaveYaml]
                | Some e \<Rightarrow> [])
         \<and> applied (fst (resolve_and_apply s app a options force)) = [TObj b]"
  using assms
  by (simp add: resolve_def resolve_and_apply_def select_target_def apply_and_save_def
        split: prod.splits option.splits)

theorem single_binary_selected_witness:
  "length (targets (app_of [t_a, t_b] [t_b])) \<noteq> 1 \<and> binaries (app_of [t_a, t_b] [t_b]) = [t_b]
   \<and> resolve None None None (app_of [t_a, t_b] [t_b]) = TObj t_b
   \<and> applied (fst (resolve_and_apply (calm (app_of [t_a, t_b] [t_b]) []) (app_of [t_a, t_b] [t_b])
        plain [] False)) = [TObj t_b]"
proof -
  have h1: "length (targets (app_of [t_a, t_b] [t_b])) \<noteq> 1"
    and h2: "binaries (app_of [t_a, t_b] [t_b]) = [t_b]"
    by (simp_all add: app_of_def)
  from single_binary_selected [OF h1 h2, of "target plain" "arch plain" "plat plain"
      "calm (app_of [t_a, t_b] [t_b]) []" plain "[]" False] h1 h2
  show ?thesis by (simp add: plain_def apply_and_save_def calm_def)
qed

text \<open>
  Claim C6, as stated: with two or more targets and more than one binary, a target name
  equal to the name of the second declared target and not the first returns the second.
  The first target still wins when the architecture and platform given with the name are
  its own (lines 244 to 247).
\<close>

theorem second_name_first_arch_plat:
  "resolve (Some ''b'') (Some ''x86_64'') (Some ''kvm'') (app_of [t_a, t_b] [t_a, t_b]) = TObj t_a
   \<and> TObj t_a \<noteq> TObj t_b"
  by (simp add: resolve_def app_of_def t_a_def t_b_def)

text \<open>
  Claim C6, amended: when the application has neither exactly one target nor exactly one
  binary, the scan visits the targets in declared order and stops at the first whose
  name equals the explicit name or whose architecture and platform both equal the
  explicit hints (when none qualifies the caller's value stays); so a name equal to the
  name of the second declared target and not the first returns the second, provided the
  first target's architecture and platform are not both equal to the hints.
\<close>

theorem scan_first_in_declared_order:
  assumes "length (targets app) \<noteq> 1" and "length (binaries app) \<noteq> 1"
  shows "resolve tgt ar pl app =
           (case spec_first_match tgt ar pl (targets app) of
              Some t \<Rightarrow> TObj t
            | None \<Rightarrow> (case tgt of None \<Rightarrow> TNone | Some nm \<Rightarrow> TName nm))
         \<and> (\<forall>t1 t2 ts nm.
               targets app = t1 # t2 # ts \<and> tgt = Some nm \<and> name t2 = Some nm
               \<and> name t1 \<noteq> Some nm
               \<and> \<not> (ar = Some (architecture t1) \<and> pl = Some (platform t1))
               \<longrightarrow> resolve tgt ar pl app = TObj t2)"
proof
  from assms show "resolve tgt ar pl app =
           (case spec_first_match tgt ar pl (targets app) of
              Some t \<Rightarrow> TObj t
            | None \<Rightarrow> (case tgt of None \<Rightarrow> TNone | Some nm \<Rightarrow> TName nm))"
    by (simp add: resolve_def scan_first_match)
next
  from assms show "\<forall>t1 t2 ts nm.
               targets app = t1 # t2 # ts \<and> tgt = Some nm \<and> name t2 = Some nm
               \<and> name t1 \<noteq> Some nm
               \<and> \<not> (ar = Some (architecture t1) \<and> pl = Some (platform t1))
               \<longrightarrow> resolve tgt ar pl app = TObj t2"
    by (auto simp: resolve_def)
qed

theorem scan_first_in_declared_order_witness:
  "length (targets (app_of [t_a, t_b] [t_a, t_b])) \<noteq> 1
   \<and> length (binaries (app_of [t_a, t_b] [t_a, t_b])) \<noteq> 1
   \<and> name t_b = Some ''b'' \<and> name t_a \<noteq> Some ''b''
   \<and> resolve (Some ''b'') None None (app_of [t_a, t_b] [t_a, t_b]) = TObj t_b"
proof -
  have h1: "length (targets (app_of [t_a, t_b] [t_a, t_b])) \<noteq> 1"
    and h2: "length (binaries (app_of [t_a, t_b] [t_a, t_b])) \<noteq> 1"
    by (simp_all add: app_of_def)
  have names: "name t_b = Some ''b''" "name t_a \<noteq> Some ''b''"
    by (simp_all add: t_a_def t_b_def)
  have ts: "targets (app_of [t_a, t_b] [t_a, t_b]) = t_a # t_b # []"
    by (simp add: app_of_def)
  from scan_first_in_declared_order [OF h1 h2, of "Some ''b''" None None] ts names
  have "resolve (Some ''b'') None None (app_of [t_a, t_b] [t_a, t_b]) = TObj t_b"
    by blast
  with h1 h2 names show ?thesis by simp
qed

subsection \<open>What reaches the configure step\<close>

lemmas run_defs = missing_twice_def lacking_def calm_def plain_def app_of_def kraft_configure_def
        configure_loaded_def resolve_and_apply_def resolve_def select_target_def
        apply_and_save_def on_missing_def build_options_def pull_question_def












text \<open>
  Claim C8, as stated: without a terminal the fallback fails instead of prompting. In a
  world without a terminal, with two unnamed targets, two binaries and no hints, the
  prompt is invoked and the chosen binary is configured and saved.
\<close>

theorem prompt_without_terminal:
  "\<not> isatty (calm (app_of [u_kvm, u_xen] [u_kvm, u_xen]) ''app_xen-arm64'')
   \<and> kraft_configure (calm (app_of [u_kvm, u_xen] [u_kvm, u_xen]) ''app_xen-arm64'')
       (Some ''/work'') plain [] =
     ([Debug ''Configuring /work...'', FromWorkdir ''/work'' False [],
       Prompt [''app_kvm-x86_64'', ''app_xen-arm64''],
       Configure (TObj u_xen) [] False, SaveYaml], None)"
  by (simp add: calm_def plain_def app_of_def u_kvm_def u_xen_def kraft_configure_def
        configure_loaded_def resolve_and_apply_def resolve_def select_target_def
        apply_and_save_def label_def basename_def)

lemma fallback_pass:
  assumes "path_exists s wd"
    and "from_workdir s wd (force_configure a) (use_versions a) = Inr app"
    and "\<not> show_menuconfig a"
    and "is_configured app \<and> \<not> force_configure a \<longrightarrow> confirm s (overwrite_question wd) = Inr True"
    and "resolve (target a) (arch a) (plat a) app = TNone"
  shows "kraft_configure s (Some wd) a options =
     (Debug (''Configuring '' @ wd @ ''...'')
      # FromWorkdir wd (force_configure a) (use_versions a)
      # (if is_configured app \<and> \<not> force_configure a then [Confirm (overwrite_question wd)]
         else [])
      @ Prompt (map label (binaries app))
      # (case prompt s (map label (binaries app)) of
           Inl e \<Rightarrow> []
         | Inr answers \<Rightarrow>
             (case work_backwards answers (binaries app) of
                Inl e \<Rightarrow> []
              | Inr tv \<Rightarrow>
                  fst (apply_and_save s tv options (force_configure a \<or> is_configured app)))),
      (case prompt s (map label (binaries app)) of
         Inl e \<Rightarrow> Some e
       | Inr answers \<Rightarrow>
           (case work_backwards answers (binaries app) of
              Inl e \<Rightarrow> Some e
            | Inr tv \<Rightarrow>
                snd (apply_and_save s tv options (force_configure a \<or> is_configured app)))))"
proof -
  have ra: "resolve_and_apply s app a options force =
      (Prompt (map label (binaries app))
       # (case prompt s (map label (binaries app)) of
            Inl e \<Rightarrow> []
          | Inr answers \<Rightarrow>
              (case work_backwards answers (binaries app) of
                 Inl e \<Rightarrow> []
               | Inr tv \<Rightarrow> fst (apply_and_save s tv options force))),
       (case prompt s (map label (binaries app)) of
          Inl e \<Rightarrow> Some e
        | Inr answers \<Rightarrow>
            (case work_backwards answers (binaries app) of
               Inl e \<Rightarrow> Some e
             | Inr tv \<Rightarrow> snd (apply_and_save s tv options force))))" for force
    using assms(5)
    by (simp add: resolve_and_apply_def select_target_def case_prod_beta split: sum.splits)
  show ?thesis
  proof (cases "is_configured app \<and> \<not> force_configure a")
    case True
    with assms(4) have yes: "confirm s (overwrite_question wd) = Inr True" by simp
    from True have F: "(force_configure a \<or> is_configured app) = True" by simp
    from True yes assms(1-3) show ?thesis
      unfolding F by (simp add: kraft_configure_def configure_loaded_def ra)
  next
    case False
    then consider (forced) "force_configure a"
      | (fresh) "\<not> is_configured app" "\<not> force_configure a"
      by auto
    then show ?thesis
    proof cases
      case forced
      then have F: "(force_configure a \<or> is_configured app) = True" by simp
      from forced assms(1-3) show ?thesis
        unfolding F by (simp add: kraft_configure_def configure_loaded_def ra)
    next
      case fresh
      then have F: "(force_configure a \<or> is_configured app) = False" by simp
      from fresh assms(1-3) show ?thesis
        unfolding F by (simp add: kraft_configure_def configure_loaded_def ra)
    qed
  qed
qed

text \<open>
  Claim C8, amended: whenever execution reaches the interactive fallback (the working
  directory exists, the application is loaded, no menu editor is requested, an existing
  configuration is forced or confirmed, lines 230 to 247 leave no target), the prompt
  is invoked with the labels of the binaries also when the process is not attached to a
  terminal: the code does not test the terminal on this path, so for the same reply of
  the prompt the run is the same with and without one. The operation ends at this point
  exactly when the prompt raises (its exception propagates) or returns no answer
  although binaries exist (\<^verbatim>\<open>TypeError\<close>); in every other case the configure step is
  called, and the pass ends as the configure step and the save end.
\<close>

theorem prompt_ignores_terminal:
  assumes "path_exists s wd"
    and "from_workdir s wd (force_configure a) (use_versions a) = Inr app"
    and "\<not> show_menuconfig a"
    and "is_configured app \<and> \<not> force_configure a \<longrightarrow> confirm s (overwrite_question wd) = Inr True"
    and "resolve (target a) (arch a) (plat a) app = TNone"
  shows "Prompt (map label (binaries app))
           \<in> set (fst (kraft_configure (s\<lparr>isatty := False\<rparr>) (Some wd) a options))
         \<and> kraft_configure (s\<lparr>isatty := False\<rparr>) (Some wd) a options
             = kraft_configure (s\<lparr>isatty := True\<rparr>) (Some wd) a options
         \<and> snd (kraft_configure (s\<lparr>isatty := False\<rparr>) (Some wd) a options) =
             (case prompt s (map label (binaries app)) of
                Inl e \<Rightarrow> Some e
              | Inr None \<Rightarrow>
                  if binaries app = [] then
                    (case configure s TNone options (force_configure a \<or> is_configured app) of
                       Some e \<Rightarrow> Some e
                     | None \<Rightarrow> save_yaml s)
                  else Some (TypeError
                    (CHR 0x27 # ''NoneType'' @ CHR 0x27 # '' object is not subscriptable''))
              | Inr (Some answer) \<Rightarrow>
                  (case configure s
                          (case find (\<lambda>b. basename (binary b) = answer) (binaries app) of
                             None \<Rightarrow> TNone
                           | Some b \<Rightarrow> TObj b)
                          options (force_configure a \<or> is_configured app) of
                     Some e \<Rightarrow> Some e
                   | None \<Rightarrow> save_yaml s))
         \<and> length (applied (fst (kraft_configure (s\<lparr>isatty := False\<rparr>) (Some wd) a options))) =
             (case prompt s (map label (binaries app)) of
                Inl e \<Rightarrow> 0
              | Inr None \<Rightarrow> if binaries app = [] then 1 else 0
              | Inr (Some answer) \<Rightarrow> 1)"
proof -
  have f: "path_exists (s\<lparr>isatty := False\<rparr>) wd"
    "from_workdir (s\<lparr>isatty := False\<rparr>) wd (force_configure a) (use_versions a) = Inr app"
    "is_configured app \<and> \<not> force_configure a
       \<longrightarrow> confirm (s\<lparr>isatty := False\<rparr>) (overwrite_question wd) = Inr True"
    using assms by simp_all
  have t: "path_exists (s\<lparr>isatty := True\<rparr>) wd"
    "from_workdir (s\<lparr>isatty := True\<rparr>) wd (force_configure a) (use_versions a) = Inr app"
    "is_configured app \<and> \<not> force_configure a
       \<longrightarrow> confirm (s\<lparr>isatty := True\<rparr>) (overwrite_question wd) = Inr True"
    using assms by simp_all
  note kf = fallback_pass [OF f(1,2) assms(3) f(3) assms(5), of options]
  note kt = fallback_pass [OF t(1,2) assms(3) t(3) assms(5), of options]
  show ?thesis
  proof (cases "prompt s (map label (binaries app))")
    case (Inl e)
    then show ?thesis
      by (simp add: kf kt)
  next
    case (Inr answers)
    show ?thesis
    proof (cases answers)
      case None
      with Inr show ?thesis
        by (simp add: kf kt work_backwards_no_answer apply_and_save_def split: option.splits)
    next
      case (Some answer)
      with Inr show ?thesis
        by (simp add: kf kt work_backwards_find apply_and_save_def split: option.splits)
    qed
  qed
qed

theorem prompt_ignores_terminal_witness:
  "path_exists (calm (app_of [u_kvm, u_xen] [u_kvm, u_xen]) ''app_xen-arm64'') ''/work''
   \<and> \<not> show_menuconfig plain
   \<and> resolve (target plain) (arch plain) (plat plain) (app_of [u_kvm, u_xen] [u_kvm, u_xen]) = TNone
   \<and> Prompt (map label (binaries (app_of [u_kvm, u_xen] [u_kvm, u_xen])))
       \<in> set (fst (kraft_configure
            ((calm (app_of [u_kvm, u_xen] [u_kvm, u_xen]) ''app_xen-arm64'')\<lparr>isatty := False\<rparr>)
            (Some ''/work'') plain []))
   \<and> kraft_configure
        ((calm (app_of [u_kvm, u_xen] [u_kvm, u_xen]) ''app_xen-arm64'')\<lparr>isatty := False\<rparr>)
        (Some ''/work'') plain []
      = kraft_configure
        ((calm (app_of [u_kvm, u_xen] [u_kvm, u_xen]) ''app_xen-arm64'')\<lparr>isatty := True\<rparr>)
        (Some ''/work'') plain []
   \<and> snd (kraft_configure
        ((calm (app_of [u_kvm, u_xen] [u_kvm, u_xen]) ''app_xen-arm64'')\<lparr>isatty := False\<rparr>)
        (Some ''/work'') plain []) = None
   \<and> length (applied (fst (kraft_configure
        ((calm (app_of [u_kvm, u_xen] [u_kvm, u_xen]) ''app_xen-arm64'')\<lparr>isatty := False\<rparr>)
        (Some ''/work'') plain []))) = 1"
proof -
  let ?app = "app_of [u_kvm, u_xen] [u_kvm, u_xen]"
  let ?s = "calm ?app ''app_xen-arm64''"
  have h1: "path_exists ?s ''/work''" by (simp add: calm_def)
  have h2: "from_workdir ?s ''/work'' (force_configure plain) (use_versions plain) = Inr ?app"
    by (simp add: calm_def)
  have h3: "\<not> show_menuconfig plain" by (simp add: plain_def)
  have h4: "is_configured ?app \<and> \<not> force_configure plain
              \<longrightarrow> confirm ?s (overwrite_question ''/work'') = Inr True"
    by (simp add: app_of_def)
  have h5: "resolve (target plain) (arch plain) (plat plain) ?app = TNone"
    by (simp add: resolve_def plain_def app_of_def u_kvm_def u_xen_def)
  have p: "prompt ?s (map label (binaries ?app)) = Inr (Some ''app_xen-arm64'')"
    by (simp add: calm_def)
  have c: "configure ?s tv [] f = None" "save_yaml ?s = None" for tv f
    by (simp_all add: calm_def)
  note t = prompt_ignores_terminal [OF h1 h2 h3 h4 h5, of "[]"]
  from t have t1: "Prompt (map label (binaries ?app))
       \<in> set (fst (kraft_configure (?s\<lparr>isatty := False\<rparr>) (Some ''/work'') plain []))"
    by (rule conjunct1)
  from t have t2: "kraft_configure (?s\<lparr>isatty := False\<rparr>) (Some ''/work'') plain []
      = kraft_configure (?s\<lparr>isatty := True\<rparr>) (Some ''/work'') plain []"
    by blast
  from t [THEN conjunct2, THEN conjunct2, THEN conjunct1]
  have t3: "snd (kraft_configure (?s\<lparr>isatty := False\<rparr>) (Some ''/work'') plain []) = None"
    by (simp add: p c)
  from t [THEN conjunct2, THEN conjunct2, THEN conjunct2] have t4: "length (applied (fst (kraft_configure (?s\<lparr>isatty := False\<rparr>)
        (Some ''/work'') plain []))) = 1"
    by (simp add: p)
  from h1 h3 h5 t1 t2 t3 t4 show ?thesis by blast
qed

subsection \<open>The command\<close>

lemma yes_loop_fails:
  "yes_loop c ys options = Inl (evs, out) \<Longrightarrow> out \<noteq> Return \<and> (\<forall>e\<in>set evs. \<exists>m. e = Critical m)"
  by (induction ys arbitrary: options) (auto split: sum.splits if_splits)

lemma no_loop_fails:
  "no_loop c ns options = Inl (evs, out) \<Longrightarrow> out \<noteq> Return \<and> (\<forall>e\<in>set evs. \<exists>m. e = Critical m)"
  by (induction ns arbitrary: options) (auto split: sum.splits if_splits)

lemma set_loop_fails:
  "set_loop c os options = Inl (evs, out) \<Longrightarrow> out \<noteq> Return \<and> (\<forall>e\<in>set evs. \<exists>m. e = Critical m)"
  by (induction os arbitrary: options) (auto split: sum.splits if_splits)

lemma build_options_fails:
  "build_options c ys ns os = Inl (evs, out) \<Longrightarrow>
     out \<noteq> Return \<and> (\<forall>e\<in>set evs. \<exists>m. e = Critical m)"
  unfolding build_options_def
  by (auto split: sum.splits dest: yes_loop_fails no_loop_fails set_loop_fails)

text \<open>
  Claim C10: when building the option list fails (a set token without an equals sign
  after prefixing, a detected conflict, or a failed format), the command ends there
  with an outcome other than a normal return; the events are the preflight check and
  the logged message only, so the application is neither loaded nor configured nor
  saved. (When the preflight check itself raises, the command has ended even earlier.)
\<close>

theorem options_failure_before_load:
  assumes "build_options c (yes a) (no a) (opts a) = Inl (evs, out)"
  shows "cmd_configure c w i a =
           (case preflight (w i) of
              Some e \<Rightarrow> Some ([Preflight], Raise e)
            | None \<Rightarrow> Some (Preflight # evs, out))
         \<and> out \<noteq> Return \<and> (\<forall>e\<in>set evs. \<exists>m. e = Critical m)"
proof -
  from assms have "cmd_configure c w i a =
           (case preflight (w i) of
              Some e \<Rightarrow> Some ([Preflight], Raise e)
            | None \<Rightarrow> Some (Preflight # evs, out))"
    by (subst cmd_configure.simps) (simp split: option.splits)
  with build_options_fails [OF assms] show ?thesis by simp
qed

theorem options_failure_before_load_witness:
  "build_options (kraft_const ''KEY_'') (yes (plain\<lparr>opts := [''c'']\<rparr>)) (no (plain\<lparr>opts := [''c'']\<rparr>))
      (opts (plain\<lparr>opts := [''c'']\<rparr>))
     = Inl ([Critical ''Missing value for --set option: KEY_c''], SysExit 1)
   \<and> cmd_configure (kraft_const ''KEY_'') (\<lambda>i. calm (app_of [t_a] []) []) 0 (plain\<lparr>opts := [''c'']\<rparr>)
     = Some ([Preflight, Critical ''Missing value for --set option: KEY_c''], SysExit 1)"
proof -
  have h: "build_options (kraft_const ''KEY_'') (yes (plain\<lparr>opts := [''c'']\<rparr>))
      (no (plain\<lparr>opts := [''c'']\<rparr>)) (opts (plain\<lparr>opts := [''c'']\<rparr>))
     = Inl ([Critical ''Missing value for --set option: KEY_c''], SysExit 1)"
    by (simp add: plain_def build_options_def kraft_const_def prefixed_def startswith_def)
  from options_failure_before_load [OF h, of "\<lambda>i. calm (app_of [t_a] []) []" 0] h show ?thesis
    by (simp add: calm_def)
qed

text \<open>
  Claim C9, as stated: a request for the menu editor without a terminal always fails
  with the menu editor's error, before any option is normalised. The option list is
  built first (lines 127 to 145 precede the call of line 148): with a set token that
  lacks a value the command exits on that token and the check of the terminal is never
  reached.
\<close>

theorem menuconfig_after_options:
  "show_menuconfig (plain\<lparr>show_menuconfig := True, opts := [''c'']\<rparr>)
   \<and> \<not> isatty (calm (app_of [t_a] []) [])
   \<and> cmd_configure (kraft_const ''KEY_'') (\<lambda>i. calm (app_of [t_a] []) []) 0
       (plain\<lparr>show_menuconfig := True, opts := [''c'']\<rparr>)
     = Some ([Preflight, Critical ''Missing value for --set option: KEY_c''], SysExit 1)"
  by (subst cmd_configure.simps)
     (simp add: plain_def calm_def build_options_def kraft_const_def prefixed_def startswith_def)

text \<open>
  Claim C9, amended: for every request for the menu editor without a terminal in which
  the preflight check passes, the option list is built without failure, the working
  directory exists and the application loads, the command logs the error
  \<^verbatim>\<open>Cannot open menuconfig in non-TTY environment\<close> and exits with status 1, before
  any confirmation, target resolution, configure step or save. The option list has been
  built by then.
\<close>

theorem menuconfig_without_terminal:
  assumes "show_menuconfig a" and "\<not> isatty (w i)" and "preflight (w i) = None"
    and "build_options c (yes a) (no a) (opts a) = Inr options"
    and "wd = (case workdir a of None \<Rightarrow> getcwd (w i) | Some d \<Rightarrow> d)"
    and "path_exists (w i) wd"
    and "from_workdir (w i) wd (force_configure a) (use_versions a) = Inr app"
  shows "cmd_configure c w i a =
           Some ([Preflight, Debug (''Configuring '' @ wd @ ''...''),
                  FromWorkdir wd (force_configure a) (use_versions a),
                  CriticalError (KraftError ''Cannot open menuconfig in non-TTY environment'')]
                 @ (if verbose (w i) then [Traceback] else []),
                 SysExit 1)"
  using assms
  by (subst cmd_configure.simps) (simp add: kraft_configure_def configure_loaded_def)

theorem menuconfig_without_terminal_witness:
  "show_menuconfig (plain\<lparr>show_menuconfig := True\<rparr>)
   \<and> \<not> isatty (calm (app_of [t_a] []) [])
   \<and> cmd_configure (kraft_const ''KEY_'') (\<lambda>i. calm (app_of [t_a] []) []) 0
        (plain\<lparr>show_menuconfig := True\<rparr>) =
      Some ([Preflight, Debug ''Configuring /work...'', FromWorkdir ''/work'' False [],
             CriticalError (KraftError ''Cannot open menuconfig in non-TTY environment'')],
            SysExit 1)"
proof -
  let ?s = "calm (app_of [t_a] []) []"
  let ?a = "plain\<lparr>show_menuconfig := True\<rparr>"
  have h1: "show_menuconfig ?a" by simp
  have h2: "\<not> isatty ((\<lambda>i. ?s) (0::nat))" by (simp add: calm_def)
  have h3: "preflight ((\<lambda>i. ?s) (0::nat)) = None" by (simp add: calm_def)
  have h4: "build_options (kraft_const ''KEY_'') (yes ?a) (no ?a) (opts ?a) = Inr []"
    by (simp add: plain_def build_options_def)
  have h5: "''/work'' = (case workdir ?a of None \<Rightarrow> getcwd ((\<lambda>i. ?s) (0::nat)) | Some d \<Rightarrow> d)"
    by (simp add: plain_def calm_def)
  have h6: "path_exists ((\<lambda>i. ?s) (0::nat)) ''/work''" by (simp add: calm_def)
  have h7: "from_workdir ((\<lambda>i. ?s) (0::nat)) ''/work'' (force_configure ?a) (use_versions ?a)
              = Inr (app_of [t_a] [])"
    by (simp add: calm_def)
  from menuconfig_without_terminal [where w = "\<lambda>i. ?s" and i = 0, OF h1 h2 h3 h4 h5 h6 h7] h1 h2
  show ?thesis by (simp add: plain_def calm_def)
qed

subsection \<open>Pulling a missing component\<close>

lemma pulled_append: "pulled (xs @ ys) = pulled xs @ pulled ys"
  by (induction xs rule: pulled.induct) auto

lemma entries_append: "entries (xs @ ys) = entries xs + entries ys"
  by (induction xs rule: entries.induct) auto

lemma quiet_apply_and_save:
  "pulled (fst (apply_and_save s tv options force)) = []"
  "entries (fst (apply_and_save s tv options force)) = 0"
  by (simp_all add: apply_and_save_def split: option.splits)

lemma quiet_select_target:
  "pulled (fst (select_target s app tv)) = []"
  "entries (fst (select_target s app tv)) = 0"
  by (simp_all add: select_target_def split: sum.splits option.splits)

lemma quiet_resolve_and_apply:
  "pulled (fst (resolve_and_apply s app a options force)) = []"
  "entries (fst (resolve_and_apply s app a options force)) = 0"
proof -
  obtain evs r where st: "select_target s app (resolve (target a) (arch a) (plat a) app) = (evs, r)"
    by (cases "select_target s app (resolve (target a) (arch a) (plat a) app)")
  with quiet_select_target [of s app "resolve (target a) (arch a) (plat a) app"]
  have q: "pulled evs = []" "entries evs = 0" by simp_all
  show "pulled (fst (resolve_and_apply s app a options force)) = []"
    using st q quiet_apply_and_save(1) [of s _ options force]
    by (cases r) (simp_all add: resolve_and_apply_def case_prod_beta pulled_append)
  show "entries (fst (resolve_and_apply s app a options force)) = 0"
    using st q quiet_apply_and_save(2) [of s _ options force]
    by (cases r) (simp_all add: resolve_and_apply_def case_prod_beta entries_append)
qed

lemma quiet_configure_loaded:
  "pulled (fst (configure_loaded s wd app a options)) = []"
  "entries (fst (configure_loaded s wd app a options)) = 0"
  by (simp_all add: configure_loaded_def case_prod_beta quiet_resolve_and_apply
        split: sum.splits bool.splits)

lemma quiet_kraft_configure:
  "pulled (fst (kraft_configure s wdir a options)) = []"
  "entries (fst (kraft_configure s wdir a options)) = 0"
  by (simp_all add: kraft_configure_def case_prod_beta quiet_configure_loaded
        split: option.splits sum.splits)

lemma force_already: "force_configure a \<Longrightarrow> a\<lparr>force_configure := True\<rparr> = a"
  by (cases a) simp

lemma enter_again:
  assumes "force_configure a" and "preflight (w i) = None"
    and "build_options c (yes a) (no a) (opts a) = Inr options"
    and "snd (kraft_configure (w i)
           (Some (case workdir a of None \<Rightarrow> getcwd (w i) | Some d \<Rightarrow> d)) a options)
         = Some (MissingComponent component)"
    and "kraft_list_pull (w i) component = None"
  shows "cmd_configure c w i a =
           Option.bind (cmd_configure c w (Suc i) a)
             (\<lambda>(evs, out). Some ((Preflight # fst (kraft_configure (w i)
                 (Some (case workdir a of None \<Rightarrow> getcwd (w i) | Some d \<Rightarrow> d)) a options)
                 @ [Pull component]) @ evs, out))"
  using assms
  by (subst cmd_configure.simps)
     (simp add: on_missing_def force_already case_prod_beta split: prod.splits)

lemma bind_bind_trace:
  "Option.bind (Option.bind x (\<lambda>(evs, out). Some (tr2 @ evs, out)))
       (\<lambda>(evs, out). Some (tr1 @ evs, out))
   = Option.bind x (\<lambda>(evs, out). Some ((tr1 @ tr2) @ evs, out))"
  by (cases x) auto

lemma missing_twice_hyp:
  "\<forall>j<2. preflight (missing_twice (0 + j)) = None
           \<and> (\<exists>component.
                 snd (kraft_configure (missing_twice (0 + j))
                        (Some (case workdir (plain\<lparr>force_configure := True\<rparr>) of
                                 None \<Rightarrow> getcwd (missing_twice (0 + j)) | Some d \<Rightarrow> d))
                        (plain\<lparr>force_configure := True\<rparr>) []) = Some (MissingComponent component)
                 \<and> kraft_list_pull (missing_twice (0 + j)) component = None)"
  by (simp add: run_defs)

text \<open>
  Claim C2, as stated: after one pull and one restart, a second missing component ends
  the command with a non-zero outcome and without another pull. In the world where the
  component is missing at the first two entries, the command pulls twice, enters three
  times and returns normally.
\<close>

theorem two_fetches_then_success:
  "cmd_configure (kraft_const ''KEY_'') missing_twice 0 plain =
     Some ([Preflight, Debug ''Configuring /work...'', FromWorkdir ''/work'' False [],
            Configure (TObj t_a) [] False, Warn (MissingComponent ''newlib''),
            Confirm ''Would you like to pull newlib?'', Pull ''newlib'',
            Preflight, Debug ''Configuring /work...'', FromWorkdir ''/work'' True [],
            Configure (TObj t_a) [] True, Pull ''newlib'',
            Preflight, Debug ''Configuring /work...'', FromWorkdir ''/work'' True [],
            Configure (TObj t_a) [] True, SaveYaml],
           Return)"
proof -
  let ?c = "kraft_const ''KEY_''"
  let ?a = "plain\<lparr>force_configure := True\<rparr>"
  have e2: "cmd_configure ?c missing_twice (Suc (Suc 0)) ?a =
     Some ([Preflight, Debug ''Configuring /work...'', FromWorkdir ''/work'' True [],
            Configure (TObj t_a) [] True, SaveYaml], Return)"
    by (subst cmd_configure.simps) (simp add: run_defs)
  have e1: "cmd_configure ?c missing_twice (Suc 0) ?a =
     Some ([Preflight, Debug ''Configuring /work...'', FromWorkdir ''/work'' True [],
            Configure (TObj t_a) [] True, Pull ''newlib'',
            Preflight, Debug ''Configuring /work...'', FromWorkdir ''/work'' True [],
            Configure (TObj t_a) [] True, SaveYaml], Return)"
    by (subst cmd_configure.simps) (simp add: run_defs e2 [unfolded plain_def, simplified])
  show ?thesis
    by (subst cmd_configure.simps) (simp add: run_defs e1 [unfolded plain_def, simplified])
qed

text \<open>
  Claim C2, amended: the recovery has no bound. With force mode on (as it is after the
  first restart), for every \<open>k\<close>: if at \<open>k\<close> entries in a row the configure
  sequence fails with a missing component and the pull of that component succeeds,
  the command pulls \<open>k\<close> times without asking, enters the sequence again
  \<open>k\<close> times, and ends as the entry after them ends. The events \<open>tr\<close> are
  those before that entry.
\<close>

theorem refetch_each_time:
  assumes "force_configure a"
    and "build_options c (yes a) (no a) (opts a) = Inr options"
    and "\<forall>j<k. preflight (w (i + j)) = None
           \<and> (\<exists>component.
                 snd (kraft_configure (w (i + j))
                        (Some (case workdir a of None \<Rightarrow> getcwd (w (i + j)) | Some d \<Rightarrow> d))
                        a options) = Some (MissingComponent component)
                 \<and> kraft_list_pull (w (i + j)) component = None)"
  shows "\<exists>tr. cmd_configure c w i a =
                Option.bind (cmd_configure c w (i + k) a) (\<lambda>(evs, out). Some (tr @ evs, out))
              \<and> length (pulled tr) = k \<and> entries tr = k"
  using assms(3)
proof (induction k)
  case 0
  have "cmd_configure c w i a =
          Option.bind (cmd_configure c w (i + 0) a) (\<lambda>(evs, out). Some ([] @ evs, out))"
    by (cases "cmd_configure c w i a") auto
  then show ?case by (intro exI [of _ "[]"]) simp
next
  case (Suc k)
  then obtain tr where tr: "cmd_configure c w i a =
        Option.bind (cmd_configure c w (i + k) a) (\<lambda>(evs, out). Some (tr @ evs, out))"
      and n: "length (pulled tr) = k" "entries tr = k"
    by auto
  from Suc.prems obtain component where
    pf: "preflight (w (i + k)) = None"
    and kc: "snd (kraft_configure (w (i + k))
                    (Some (case workdir a of None \<Rightarrow> getcwd (w (i + k)) | Some d \<Rightarrow> d))
                    a options) = Some (MissingComponent component)"
    and pl: "kraft_list_pull (w (i + k)) component = None"
    by auto
  let ?evs = "fst (kraft_configure (w (i + k))
                    (Some (case workdir a of None \<Rightarrow> getcwd (w (i + k)) | Some d \<Rightarrow> d))
                    a options)"
  let ?tr2 = "Preflight # ?evs @ [Pull component]"
  from enter_again [where w = w and i = "i + k", OF assms(1) pf assms(2) kc pl]
  have step: "cmd_configure c w (i + k) a =
        Option.bind (cmd_configure c w (Suc (i + k)) a) (\<lambda>(evs, out). Some (?tr2 @ evs, out))"
    by simp
  have "cmd_configure c w i a =
        Option.bind (cmd_configure c w (i + Suc k) a)
          (\<lambda>(evs, out). Some ((tr @ ?tr2) @ evs, out))"
    by (subst tr, subst step) (simp only: bind_bind_trace add_Suc_right)
  moreover have "length (pulled (tr @ ?tr2)) = Suc k"
    using n by (simp add: pulled_append quiet_kraft_configure)
  moreover have "entries (tr @ ?tr2) = Suc k"
    using n by (simp add: entries_append quiet_kraft_configure)
  ultimately show ?case by blast
qed

theorem refetch_each_time_witness:
  "force_configure (plain\<lparr>force_configure := True\<rparr>)
   \<and> (\<exists>tr. cmd_configure (kraft_const ''KEY_'') missing_twice 0 (plain\<lparr>force_configure := True\<rparr>) =
          Option.bind
            (cmd_configure (kraft_const ''KEY_'') missing_twice 2 (plain\<lparr>force_configure := True\<rparr>))
            (\<lambda>(evs, out). Some (tr @ evs, out))
        \<and> length (pulled tr) = 2 \<and> entries tr = 2)"
proof -
  have f: "force_configure (plain\<lparr>force_configure := True\<rparr>)" by simp
  have b: "build_options (kraft_const ''KEY_'') (yes (plain\<lparr>force_configure := True\<rparr>))
             (no (plain\<lparr>force_configure := True\<rparr>)) (opts (plain\<lparr>force_configure := True\<rparr>)) = Inr []"
    by (simp add: plain_def build_options_def)
  from refetch_each_time [OF f b missing_twice_hyp] f show ?thesis by (simp add: numeral_2_eq_2)
qed

text \<open>
  When the component is missing at every entry and every pull succeeds, the command
  never ends.
\<close>

lemma never_ends:
  assumes "force_configure a"
    and "build_options c (yes a) (no a) (opts a) = Inr options"
    and "\<forall>j. preflight (w j) = None
           \<and> (\<exists>component.
                 snd (kraft_configure (w j)
                        (Some (case workdir a of None \<Rightarrow> getcwd (w j) | Some d \<Rightarrow> d))
                        a options) = Some (MissingComponent component)
                 \<and> kraft_list_pull (w j) component = None)"
  shows "cmd_configure c w i a = None"
proof -
  have "\<forall>j. cmd_configure c w j a = None"
  proof (rule cmd_configure.fixp_induct [where P = "\<lambda>f. \<forall>j. f c w j a = None"])
    show "option.admissible (\<lambda>f. \<forall>j. curry (curry (curry f)) c w j a = None)"
      by (intro ccpo.admissibleI) (auto simp: fun_lub_def flat_lub_def curry_def)
  next
    show "\<forall>j. None = None" by simp
  next
    fix f :: "kconst \<Rightarrow> (nat \<Rightarrow> scenario) \<Rightarrow> nat \<Rightarrow> params \<Rightarrow> (event list \<times> outcome) option"
    assume ih: "\<forall>j. f c w j a = None"
    show "\<forall>j. (case preflight (w j) of
            Some e \<Rightarrow> Some ([Preflight], Raise e)
          | None \<Rightarrow>
              (case build_options c (yes a) (no a) (opts a) of
                 Inl (evs, out) \<Rightarrow> Some (Preflight # evs, out)
               | Inr options \<Rightarrow>
                   (case kraft_configure (w j)
                           (Some (case workdir a of None \<Rightarrow> getcwd (w j) | Some d \<Rightarrow> d))
                           a options of
                      (evs, None) \<Rightarrow> Some (Preflight # evs, Return)
                    | (evs, Some (MissingComponent component)) \<Rightarrow>
                        (case on_missing (w j) (force_configure a) component of
                           (evs', Some out) \<Rightarrow> Some (Preflight # evs @ evs', out)
                         | (evs', None) \<Rightarrow>
                             Option.bind
                               (f c w (Suc j) (a\<lparr>force_configure := True\<rparr>))
                               (\<lambda>(evs'', out). Some (Preflight # evs @ evs' @ evs'', out)))
                    | (evs, Some e) \<Rightarrow>
                        Some (Preflight # evs @ [CriticalError e]
                                @ (if verbose (w j) then [Traceback] else []),
                              SysExit 1)))) = None"
    proof
      fix j
      from assms(3) obtain component where
        pf: "preflight (w j) = None"
        and kc: "snd (kraft_configure (w j)
                    (Some (case workdir a of None \<Rightarrow> getcwd (w j) | Some d \<Rightarrow> d))
                    a options) = Some (MissingComponent component)"
        and pl: "kraft_list_pull (w j) component = None"
        by blast
      from ih have "f c w (Suc j) a = None" by simp
      with pf kc pl assms(1,2) show "(case preflight (w j) of
            Some e \<Rightarrow> Some ([Preflight], Raise e)
          | None \<Rightarrow>
              (case build_options c (yes a) (no a) (opts a) of
                 Inl (evs, out) \<Rightarrow> Some (Preflight # evs, out)
               | Inr options \<Rightarrow>
                   (case kraft_configure (w j)
                           (Some (case workdir a of None \<Rightarrow> getcwd (w j) | Some d \<Rightarrow> d))
                           a options of
                      (evs, None) \<Rightarrow> Some (Preflight # evs, Return)
                    | (evs, Some (MissingComponent component)) \<Rightarrow>
                        (case on_missing (w j) (force_configure a) component of
                           (evs', Some out) \<Rightarrow> Some (Preflight # evs @ evs', out)
                         | (evs', None) \<Rightarrow>
                             Option.bind
                               (f c w (Suc j) (a\<lparr>force_configure := True\<rparr>))
                               (\<lambda>(evs'', out). Some (Preflight # evs @ evs' @ evs'', out)))
                    | (evs, Some e) \<Rightarrow>
                        Some (Preflight # evs @ [CriticalError e]
                                @ (if verbose (w j) then [Traceback] else []),
                              SysExit 1)))) = None"
        by (simp add: on_missing_def force_already case_prod_beta)
    qed
  qed
  then show ?thesis by simp
qed

end
